theory Spec2Isabelle
  imports Complex_Main "HOL-Library.Char_ord" "HOL-Library.List_Lexorder"
begin

section \<open>Python values, exceptions and the library operations the provider uses\<close>

text \<open>
  The provider of \<^verbatim>\<open>src/utils/api_handler.py\<close> handles dynamically typed JSON
  documents. A document is a \<open>pyval\<close>; a \<^verbatim>\<open>dict\<close> is an association list in
  insertion order (lookups take the first binding of a key). Floats are idealised as
  real numbers: rounding, infinities and NaN are outside the model.
\<close>

datatype pyval =
    PNone
  | PBool bool
  | PInt int
  | PFloat real
  | PStr string
  | PList "pyval list"
  | PDict "(string \<times> pyval) list"

datatype exn =
    TypeError
  | ValueError
  | OverflowError
  | AttributeError
  | FileNotFoundError
  | OSError
  | JSONDecodeError
  | RequestException
  | YFinanceError

text \<open>Sequencing of a computation that may raise: the first exception wins.\<close>

definition and_then :: "exn + 'a \<Rightarrow> ('a \<Rightarrow> exn + 'b) \<Rightarrow> exn + 'b" where
  "and_then m f = (case m of Inl x \<Rightarrow> Inl x | Inr a \<Rightarrow> f a)"

text \<open>Python truthiness, as used by \<^verbatim>\<open>if not data\<close> and \<^verbatim>\<open>if not time_series\<close>.\<close>

fun truthy :: "pyval \<Rightarrow> bool" where
  "truthy PNone = False"
| "truthy (PBool b) = b"
| "truthy (PInt n) = (n \<noteq> 0)"
| "truthy (PFloat x) = (x \<noteq> 0)"
| "truthy (PStr s) = (s \<noteq> [])"
| "truthy (PList xs) = (xs \<noteq> [])"
| "truthy (PDict kvs) = (kvs \<noteq> [])"

text \<open>\<^verbatim>\<open>d.get(k, default)\<close> on the bindings of a dict.\<close>

definition dget :: "(string \<times> pyval) list \<Rightarrow> string \<Rightarrow> pyval \<Rightarrow> pyval" where
  "dget kvs k dflt = (case map_of kvs k of Some v \<Rightarrow> v | None \<Rightarrow> dflt)"

text \<open>\<^verbatim>\<open>v.get(k, default)\<close> on any value: only a dict has the method.\<close>

definition py_get :: "pyval \<Rightarrow> string \<Rightarrow> pyval \<Rightarrow> exn + pyval" where
  "py_get v k dflt = (case v of PDict kvs \<Rightarrow> Inr (dget kvs k dflt) | _ \<Rightarrow> Inl AttributeError)"

fun is_prefix :: "string \<Rightarrow> string \<Rightarrow> bool" where
  "is_prefix [] ys = True"
| "is_prefix (x # xs) [] = False"
| "is_prefix (x # xs) (y # ys) = (x = y \<and> is_prefix xs ys)"

fun is_substring :: "string \<Rightarrow> string \<Rightarrow> bool" where
  "is_substring xs [] = (xs = [])"
| "is_substring xs (y # ys) = (is_prefix xs (y # ys) \<or> is_substring xs ys)"

text \<open>
  \<^verbatim>\<open>k in v\<close> for a string \<open>k\<close>: key membership on a dict, element membership on a
  list, substring test on a string, \<^verbatim>\<open>TypeError\<close> on anything else.
\<close>

definition py_in :: "string \<Rightarrow> pyval \<Rightarrow> exn + bool" where
  "py_in k v =
     (case v of
        PDict kvs \<Rightarrow> Inr (k \<in> set (map fst kvs))
      | PList xs \<Rightarrow> Inr (PStr k \<in> set xs)
      | PStr s \<Rightarrow> Inr (is_substring k s)
      | _ \<Rightarrow> Inl TypeError)"

text \<open>
  Everything outside the provider that one call of \<^verbatim>\<open>get_stock_data\<close> consults:
  the clock, the two remote sources, how a write to a path ends, and
  Python's own parsing of numerals by \<^verbatim>\<open>float(str)\<close> and \<^verbatim>\<open>int(str)\<close>
  (\<open>None\<close> is \<^verbatim>\<open>ValueError\<close>). A request that raises is \<open>ConnectionFailed\<close>; a
  response carries its status code and its JSON body (\<open>None\<close> when
  \<^verbatim>\<open>response.json()\<close> raises). A row of the secondary source's history table
  carries its index already formatted by \<^verbatim>\<open>strftime("%Y-%m-%d")\<close>. A write ends in
  one of three ways: the document is written; \<^verbatim>\<open>open(path, 'w')\<close> raises and the file
  system is untouched; or \<^verbatim>\<open>open\<close> succeeds, which truncates the file, and
  \<^verbatim>\<open>json.dump\<close> raises before the document is complete.
\<close>

type_synonym params = "(string \<times> string) list"

datatype write_outcome = Written | OpenRefused | DumpFailed

datatype http_reply = ConnectionFailed | Response int "pyval option"

record bar =
  bar_date :: string
  bar_open :: pyval
  bar_high :: pyval
  bar_low :: pyval
  bar_close :: pyval
  bar_volume :: pyval

record world =
  clock :: real
  today :: string
  http :: "string \<Rightarrow> params \<Rightarrow> http_reply"
  yf_history :: "string \<Rightarrow> bar list option"
  yf_info :: "string \<Rightarrow> (string \<times> pyval) list option"
  write_result :: "string \<Rightarrow> write_outcome"
  parse_float :: "string \<Rightarrow> real option"
  parse_int :: "string \<Rightarrow> int option"

text \<open>
  \<^verbatim>\<open>float(n)\<close> of an integer raises \<^verbatim>\<open>OverflowError\<close> when \<open>n\<close> rounds beyond the
  largest double, that is from \<open>2 ^ 1024 - 2 ^ 970\<close> on in absolute value.
\<close>

definition float_overflows :: "int \<Rightarrow> bool" where
  "float_overflows n = (2 ^ 1024 - 2 ^ 970 \<le> \<bar>n\<bar>)"

definition py_float :: "world \<Rightarrow> pyval \<Rightarrow> exn + real" where
  "py_float L v =
     (case v of
        PStr s \<Rightarrow> (case parse_float L s of None \<Rightarrow> Inl ValueError | Some x \<Rightarrow> Inr x)
      | PInt n \<Rightarrow> if float_overflows n then Inl OverflowError else Inr (of_int n)
      | PFloat x \<Rightarrow> Inr x
      | PBool b \<Rightarrow> Inr (if b then 1 else 0)
      | _ \<Rightarrow> Inl TypeError)"

definition py_int :: "world \<Rightarrow> pyval \<Rightarrow> exn + int" where
  "py_int L v =
     (case v of
        PStr s \<Rightarrow> (case parse_int L s of None \<Rightarrow> Inl ValueError | Some n \<Rightarrow> Inr n)
      | PInt n \<Rightarrow> Inr n
      | PFloat x \<Rightarrow> Inr (if 0 \<le> x then \<lfloor>x\<rfloor> else \<lceil>x\<rceil>)
      | PBool b \<Rightarrow> Inr (if b then 1 else 0)
      | _ \<Rightarrow> Inl TypeError)"

subsection \<open>Paths\<close>

text \<open>
  \<^verbatim>\<open>str.lower()\<close> on ASCII text (a \<open>char\<close> is a byte; on text with other characters
  Python lower-cases by Unicode rules that depend on the context, which \<open>lower\<close> does
  not follow, so what is proved of the cache file holds for ASCII tickers), and
  \<^verbatim>\<open>os.path.join(a, b)\<close> of \<^verbatim>\<open>posixpath\<close>: an absolute second component replaces
  the first.
\<close>

definition is_upper :: "char \<Rightarrow> bool" where
  "is_upper c = (65 \<le> (of_char c :: nat) \<and> (of_char c :: nat) \<le> 90)"

definition lower_char :: "char \<Rightarrow> char" where
  "lower_char c = (if is_upper c then char_of ((of_char c :: nat) + 32) else c)"

definition lower :: "string \<Rightarrow> string" where
  "lower s = map lower_char s"

definition path_join :: "string \<Rightarrow> string \<Rightarrow> string" where
  "path_join a b =
     (if is_prefix ''/'' b then b
      else if a = [] \<or> last a = CHR ''/'' then a @ b
      else a @ ''/'' @ b)"

text \<open>Line 48: \<^verbatim>\<open>f"{ticker.lower()}_data.json"\<close> and its place under the cache directory.\<close>

definition cache_name :: "string \<Rightarrow> string" where
  "cache_name ticker = lower ticker @ ''_data.json''"

definition cache_file :: "string \<Rightarrow> string \<Rightarrow> string" where
  "cache_file dir ticker = path_join dir (cache_name ticker)"

section \<open>The normalised record\<close>

record price_point =
  pp_date :: string
  pp_open :: pyval
  pp_high :: pyval
  pp_low :: pyval
  pp_close :: pyval
  pp_volume :: pyval

record stock_record =
  ticker :: string
  source :: string
  last_updated :: pyval
  prices :: "price_point list"
  company_info :: "pyval option"

text \<open>The dicts the code builds, with the keys in the order of the dict literals.\<close>

definition price_json :: "price_point \<Rightarrow> pyval" where
  "price_json pt =
     PDict [(''date'', PStr (pp_date pt)), (''open'', pp_open pt), (''high'', pp_high pt),
            (''low'', pp_low pt), (''close'', pp_close pt), (''volume'', pp_volume pt)]"

definition stock_json :: "stock_record \<Rightarrow> pyval" where
  "stock_json r =
     PDict ([(''ticker'', PStr (ticker r)), (''source'', PStr (source r)),
             (''last_updated'', last_updated r),
             (''prices'', PList (map price_json (prices r)))]
            @ (case company_info r of None \<Rightarrow> [] | Some c \<Rightarrow> [(''company_info'', c)]))"

definition as_optional :: "stock_record option \<Rightarrow> pyval" where
  "as_optional d = (case d of None \<Rightarrow> PNone | Some r \<Rightarrow> stock_json r)"

section \<open>Normalisation of the primary source's time series\<close>

text \<open>
  \<^verbatim>\<open>_process_alpha_vantage_time_series\<close>, lines 204 to 227. One entry of
  \<^verbatim>\<open>time_series.items()\<close> becomes one price point; a conversion that raises ends the
  loop. \<^verbatim>\<open>prices.sort(key=..., reverse=True)\<close> is the stable sort of the reversed list,
  reversed.
\<close>

definition field_float :: "world \<Rightarrow> pyval \<Rightarrow> string \<Rightarrow> exn + pyval" where
  "field_float w vals k =
     and_then (py_get vals k (PInt 0)) (\<lambda>v. and_then (py_float w v) (\<lambda>x. Inr (PFloat x)))"

definition field_int :: "world \<Rightarrow> pyval \<Rightarrow> string \<Rightarrow> exn + pyval" where
  "field_int w vals k =
     and_then (py_get vals k (PInt 0)) (\<lambda>v. and_then (py_int w v) (\<lambda>n. Inr (PInt n)))"

definition process_entry :: "world \<Rightarrow> string \<times> pyval \<Rightarrow> exn + price_point" where
  "process_entry w entry =
     (case entry of (date, vals) \<Rightarrow>
        and_then (field_float w vals ''1. open'') (\<lambda>opn.
        and_then (field_float w vals ''2. high'') (\<lambda>hi.
        and_then (field_float w vals ''3. low'') (\<lambda>lo.
        and_then (field_float w vals ''4. close'') (\<lambda>cl.
        and_then (field_int w vals ''5. volume'') (\<lambda>vol.
          Inr \<lparr>pp_date = date, pp_open = opn, pp_high = hi, pp_low = lo, pp_close = cl,
               pp_volume = vol\<rparr>))))))"

fun collect :: "('a \<Rightarrow> exn + 'b) \<Rightarrow> 'a list \<Rightarrow> exn + 'b list" where
  "collect f [] = Inr []"
| "collect f (x # xs) = and_then (f x) (\<lambda>y. and_then (collect f xs) (\<lambda>ys. Inr (y # ys)))"

definition sort_recent_first :: "price_point list \<Rightarrow> price_point list" where
  "sort_recent_first ps = rev (sort_key pp_date (rev ps))"

definition process_alpha_vantage_time_series :: "world \<Rightarrow> pyval \<Rightarrow> exn + price_point list" where
  "process_alpha_vantage_time_series w time_series =
     (case time_series of
        PDict items \<Rightarrow> and_then (collect (process_entry w) items) (\<lambda>ps. Inr (sort_recent_first ps))
      | _ \<Rightarrow> Inl AttributeError)"

section \<open>The primary source\<close>

datatype event =
    Exists string
  | GetMTime string
  | OpenRead string
  | OpenWrite string
  | HttpGet string params
  | YfHistory string
  | YfInfo string

definition av_url :: string where
  "av_url = ''https://www.alphavantage.co/query''"

definition time_series_params :: "string \<Rightarrow> string \<Rightarrow> params" where
  "time_series_params key tk =
     [(''function'', ''TIME_SERIES_DAILY''), (''symbol'', tk), (''outputsize'', ''full''),
      (''apikey'', key)]"

definition overview_params :: "string \<Rightarrow> string \<Rightarrow> params" where
  "overview_params key tk = [(''function'', ''OVERVIEW''), (''symbol'', tk), (''apikey'', key)]"

text \<open>Line 112: the three error-indicator keys, tested left to right.\<close>

definition error_reported :: "pyval \<Rightarrow> exn + bool" where
  "error_reported data =
     and_then (py_in ''Error Message'' data) (\<lambda>a.
       if a then Inr True
       else and_then (py_in ''Information'' data) (\<lambda>b.
         if b then Inr True else py_in ''Note'' data))"

text \<open>
  Lines 111 to 127: from the decoded body to the record without company information.
  The warning of line 113 formats \<^verbatim>\<open>data.get(...)\<close>, which raises on a body that is
  not a dict.
\<close>

definition alpha_processed :: "world \<Rightarrow> string \<Rightarrow> pyval \<Rightarrow> exn + stock_record option" where
  "alpha_processed w tk data =
     and_then (error_reported data) (\<lambda>err.
       if err then and_then (py_get data ''Note'' PNone) (\<lambda>_. Inr None)
       else
         and_then (py_get data ''Time Series (Daily)'' (PDict [])) (\<lambda>time_series.
           if \<not> truthy time_series then Inr None
           else
             and_then (py_get data ''Meta Data'' (PDict [])) (\<lambda>meta.
             and_then (py_get meta ''3. Last Refreshed'' (PStr [])) (\<lambda>refreshed.
             and_then (process_alpha_vantage_time_series w time_series) (\<lambda>ps.
               Inr (Some \<lparr>ticker = tk, source = ''alphavantage'', last_updated = refreshed,
                          prices = ps, company_info = None\<rparr>))))))"

text \<open>Lines 129 to 142: the company overview, a second request.\<close>

definition attach_overview ::
    "world \<Rightarrow> string \<Rightarrow> string \<Rightarrow> stock_record \<Rightarrow> (exn + stock_record option) \<times> event list" where
  "attach_overview w key tk r =
     (let evs = [HttpGet av_url (overview_params key tk)] in
      case http w av_url (overview_params key tk) of
        ConnectionFailed \<Rightarrow> (Inl RequestException, evs)
      | Response status body \<Rightarrow>
          if status = 200 then
            (case body of
               None \<Rightarrow> (Inl JSONDecodeError, evs)
             | Some overview_data \<Rightarrow>
                 (case py_in ''Symbol'' overview_data of
                    Inl x \<Rightarrow> (Inl x, evs)
                  | Inr present \<Rightarrow>
                      if present then (Inr (Some (r\<lparr>company_info := Some overview_data\<rparr>)), evs)
                      else (Inr (Some r), evs)))
          else (Inr (Some r), evs))"

text \<open>Lines 93 to 142: the body of the \<^verbatim>\<open>try\<close> block.\<close>

definition alpha_vantage_try ::
    "world \<Rightarrow> string \<Rightarrow> string \<Rightarrow> (exn + stock_record option) \<times> event list" where
  "alpha_vantage_try w key tk =
     (let ev = HttpGet av_url (time_series_params key tk) in
      case http w av_url (time_series_params key tk) of
        ConnectionFailed \<Rightarrow> (Inl RequestException, [ev])
      | Response status body \<Rightarrow>
          if status \<noteq> 200 then (Inr None, [ev])
          else
            (case body of
               None \<Rightarrow> (Inl JSONDecodeError, [ev])
             | Some data \<Rightarrow>
                 (case alpha_processed w tk data of
                    Inl x \<Rightarrow> (Inl x, [ev])
                  | Inr None \<Rightarrow> (Inr None, [ev])
                  | Inr (Some r) \<Rightarrow>
                      (case attach_overview w key tk r of (res, evs) \<Rightarrow> (res, ev # evs)))))"

record provider =
  alpha_vantage_key :: "string option"
  cache_duration :: int
  cache_dir :: string

text \<open>
  \<^verbatim>\<open>_get_alpha_vantage_data\<close>, lines 79 to 146: the key test, then the \<^verbatim>\<open>try\<close> block
  whose \<^verbatim>\<open>except Exception\<close> turns every exception into \<^verbatim>\<open>None\<close>.
\<close>

definition alpha_vantage_record :: "world \<Rightarrow> provider \<Rightarrow> string \<Rightarrow> stock_record option \<times> event list" where
  "alpha_vantage_record w p tk =
     (case alpha_vantage_key p of
        None \<Rightarrow> (None, [])
      | Some key \<Rightarrow>
          if key = [] then (None, [])
          else
            (case alpha_vantage_try w key tk of
               (Inl _, evs) \<Rightarrow> (None, evs)
             | (Inr d, evs) \<Rightarrow> (d, evs)))"

definition get_alpha_vantage_data :: "world \<Rightarrow> provider \<Rightarrow> string \<Rightarrow> pyval \<times> event list" where
  "get_alpha_vantage_data w p tk =
     (case alpha_vantage_record w p tk of (d, evs) \<Rightarrow> (as_optional d, evs))"

section \<open>The secondary source\<close>

text \<open>
  \<^verbatim>\<open>_get_yahoo_finance_data\<close>, lines 148 to 202. \<^verbatim>\<open>stock.history(period="2y")\<close> and the
  first read of \<^verbatim>\<open>stock.info\<close> are the two calls that reach the network; \<open>None\<close> from
  the world is a call that raises. The rows are appended in the order the table
  iterates them.
\<close>

definition yahoo_company_info :: "string \<Rightarrow> (string \<times> pyval) list \<Rightarrow> pyval" where
  "yahoo_company_info tk info =
     PDict [(''Symbol'', PStr tk),
            (''Name'', dget info ''shortName'' (PStr [])),
            (''Description'', dget info ''longBusinessSummary'' (PStr [])),
            (''Exchange'', dget info ''exchange'' (PStr [])),
            (''Industry'', dget info ''industry'' (PStr [])),
            (''Sector'', dget info ''sector'' (PStr [])),
            (''MarketCapitalization'', dget info ''marketCap'' (PStr [])),
            (''PERatio'', dget info ''trailingPE'' (PStr [])),
            (''DividendYield'', dget info ''dividendYield'' (PStr []))]"

definition bar_point :: "bar \<Rightarrow> price_point" where
  "bar_point b =
     \<lparr>pp_date = bar_date b, pp_open = bar_open b, pp_high = bar_high b, pp_low = bar_low b,
      pp_close = bar_close b, pp_volume = bar_volume b\<rparr>"

definition yahoo_try :: "world \<Rightarrow> string \<Rightarrow> (exn + stock_record option) \<times> event list" where
  "yahoo_try w tk =
     (case yf_history w tk of
        None \<Rightarrow> (Inl YFinanceError, [YfHistory tk])
      | Some rows \<Rightarrow>
          if rows = [] then (Inr None, [YfHistory tk])
          else
            (case yf_info w tk of
               None \<Rightarrow> (Inl YFinanceError, [YfHistory tk, YfInfo tk])
             | Some info \<Rightarrow>
                 (Inr (Some \<lparr>ticker = tk, source = ''yahoo'', last_updated = PStr (today w),
                             prices = map bar_point rows,
                             company_info = Some (yahoo_company_info tk info)\<rparr>),
                  [YfHistory tk, YfInfo tk])))"

definition yahoo_record :: "world \<Rightarrow> string \<Rightarrow> stock_record option \<times> event list" where
  "yahoo_record w tk =
     (case yahoo_try w tk of
        (Inl _, evs) \<Rightarrow> (None, evs)
      | (Inr d, evs) \<Rightarrow> (d, evs))"

definition get_yahoo_finance_data :: "world \<Rightarrow> string \<Rightarrow> pyval \<times> event list" where
  "get_yahoo_finance_data w tk = (case yahoo_record w tk of (d, evs) \<Rightarrow> (as_optional d, evs))"

section \<open>The cache and the fetch\<close>

text \<open>
  A cache file is its modification time and the JSON document it holds; \<open>Unreadable\<close>
  is a file on which \<^verbatim>\<open>open\<close> or \<^verbatim>\<open>json.load\<close> raises. \<^verbatim>\<open>json.dump\<close> followed by
  \<^verbatim>\<open>json.load\<close> is taken as the identity on documents (the standard library's
  contract for dicts with string keys, lists, strings and numbers).
\<close>

datatype content = Json pyval | Unreadable

record cache_entry =
  mtime :: real
  content :: content

type_synonym filesystem = "string \<Rightarrow> cache_entry option"

definition path_exists :: "filesystem \<Rightarrow> string \<Rightarrow> bool" where
  "path_exists fs path = (fs path \<noteq> None)"

definition getmtime :: "filesystem \<Rightarrow> string \<Rightarrow> exn + real" where
  "getmtime fs path = (case fs path of None \<Rightarrow> Inl FileNotFoundError | Some f \<Rightarrow> Inr (mtime f))"

definition read_json :: "filesystem \<Rightarrow> string \<Rightarrow> exn + pyval" where
  "read_json fs path =
     (case fs path of
        None \<Rightarrow> Inl FileNotFoundError
      | Some f \<Rightarrow> (case content f of Json v \<Rightarrow> Inr v | Unreadable \<Rightarrow> Inl JSONDecodeError))"

definition write_json ::
    "world \<Rightarrow> filesystem \<Rightarrow> string \<Rightarrow> pyval \<Rightarrow> (exn + unit) \<times> filesystem" where
  "write_json w fs path v =
     (case write_result w path of
        Written \<Rightarrow> (Inr (), fs(path \<mapsto> \<lparr>mtime = clock w, content = Json v\<rparr>))
      | OpenRefused \<Rightarrow> (Inl OSError, fs)
      | DumpFailed \<Rightarrow> (Inl OSError, fs(path \<mapsto> \<lparr>mtime = clock w, content = Unreadable\<rparr>)))"

text \<open>
  Lines 50 to 59. \<^verbatim>\<open>os.path.getmtime\<close> stands outside the \<^verbatim>\<open>try\<close>: what it raises
  leaves the method. The read stands inside: what it raises falls through to the live
  fetch (\<open>Inr None\<close>). The cache directory is shared with other processes, so the
  file system that \<^verbatim>\<open>os.path.exists\<close> sees (\<open>fs\<close>) need not be the one that the
  calls after it see (\<open>fs_later\<close>).
\<close>

definition cache_lookup_shared ::
    "world \<Rightarrow> provider \<Rightarrow> filesystem \<Rightarrow> filesystem \<Rightarrow> string
       \<Rightarrow> (exn + pyval option) \<times> event list" where
  "cache_lookup_shared w p fs fs_later cf =
     (if path_exists fs cf then
        (case getmtime fs_later cf of
           Inl x \<Rightarrow> (Inl x, [Exists cf, GetMTime cf])
         | Inr m \<Rightarrow>
             if clock w - m < of_int (cache_duration p) then
               (case read_json fs_later cf of
                  Inr v \<Rightarrow> (Inr (Some v), [Exists cf, GetMTime cf, OpenRead cf])
                | Inl _ \<Rightarrow> (Inr None, [Exists cf, GetMTime cf, OpenRead cf]))
             else (Inr None, [Exists cf, GetMTime cf]))
      else (Inr None, [Exists cf]))"

text \<open>The lookup when no other process touches the cache directory meanwhile.\<close>

definition cache_lookup ::
    "world \<Rightarrow> provider \<Rightarrow> filesystem \<Rightarrow> string \<Rightarrow> (exn + pyval option) \<times> event list" where
  "cache_lookup w p fs cf = cache_lookup_shared w p fs fs cf"

text \<open>Lines 69 to 75: the write, whose exceptions are caught.\<close>

definition write_cache :: "world \<Rightarrow> filesystem \<Rightarrow> string \<Rightarrow> pyval \<Rightarrow> filesystem \<times> event list" where
  "write_cache w fs cf data =
     (case write_json w fs cf data of
        (Inl _, fs') \<Rightarrow> (fs', [OpenWrite cf])
      | (Inr _, fs') \<Rightarrow> (fs', [OpenWrite cf]))"

text \<open>Lines 61 to 77: primary source, failover, cache write.\<close>

definition live_fetch ::
    "world \<Rightarrow> provider \<Rightarrow> filesystem \<Rightarrow> string \<Rightarrow> string \<Rightarrow> pyval \<times> filesystem \<times> event list" where
  "live_fetch w p fs tk cf =
     (case get_alpha_vantage_data w p tk of (data1, evs1) \<Rightarrow>
      case (if \<not> truthy data1 then get_yahoo_finance_data w tk else (data1, [])) of (data, evs2) \<Rightarrow>
      case (if truthy data then write_cache w fs cf data else (fs, [])) of (fs', evs3) \<Rightarrow>
        (data, fs', evs1 @ evs2 @ evs3))"

text \<open>
  \<^verbatim>\<open>get_stock_data\<close>, lines 37 to 77. The result is what the caller sees (a returned
  value, \<open>PNone\<close> for \<^verbatim>\<open>None\<close>, or an exception), the file system afterwards and the
  calls made, in order. Log messages are not recorded.
\<close>

definition get_stock_data_shared ::
    "world \<Rightarrow> provider \<Rightarrow> filesystem \<Rightarrow> filesystem \<Rightarrow> string
       \<Rightarrow> (exn + pyval) \<times> filesystem \<times> event list" where
  "get_stock_data_shared w p fs fs_later tk =
     (let cf = cache_file (cache_dir p) tk in
      case cache_lookup_shared w p fs fs_later cf of
        (Inl x, evs) \<Rightarrow> (Inl x, fs_later, evs)
      | (Inr (Some v), evs) \<Rightarrow> (Inr v, fs_later, evs)
      | (Inr None, evs) \<Rightarrow>
          (case live_fetch w p fs_later tk cf of
             (data, fs', evs') \<Rightarrow> (Inr data, fs', evs @ evs')))"

text \<open>The fetch when no other process touches the cache directory meanwhile.\<close>

definition get_stock_data ::
    "world \<Rightarrow> provider \<Rightarrow> filesystem \<Rightarrow> string \<Rightarrow> (exn + pyval) \<times> filesystem \<times> event list" where
  "get_stock_data w p fs tk = get_stock_data_shared w p fs fs tk"

section \<open>Kinds of calls and concrete scenarios\<close>

fun is_primary_call :: "event \<Rightarrow> bool" where
  "is_primary_call (HttpGet url ps) = True"
| "is_primary_call e = False"

fun is_secondary_call :: "event \<Rightarrow> bool" where
  "is_secondary_call (YfHistory tk) = True"
| "is_secondary_call (YfInfo tk) = True"
| "is_secondary_call e = False"

definition is_network_call :: "event \<Rightarrow> bool" where
  "is_network_call e = (is_primary_call e \<or> is_secondary_call e)"

fun event_path :: "event \<Rightarrow> string option" where
  "event_path (Exists path) = Some path"
| "event_path (GetMTime path) = Some path"
| "event_path (OpenRead path) = Some path"
| "event_path (OpenWrite path) = Some path"
| "event_path e = None"

definition keyed_provider :: provider where
  "keyed_provider = \<lparr>alpha_vantage_key = Some ''KEY'', cache_duration = 3600,
                      cache_dir = ''./data/cache''\<rparr>"

definition keyless_provider :: provider where
  "keyless_provider = \<lparr>alpha_vantage_key = Some [], cache_duration = 3600,
                        cache_dir = ''./data/cache''\<rparr>"

definition two_bars :: "bar list" where
  "two_bars =
     [\<lparr>bar_date = ''2024-01-02'', bar_open = PFloat 185, bar_high = PFloat 186,
       bar_low = PFloat 183, bar_close = PFloat 184, bar_volume = PFloat 1000\<rparr>,
      \<lparr>bar_date = ''2024-01-03'', bar_open = PFloat 184, bar_high = PFloat 185,
       bar_low = PFloat 182, bar_close = PFloat 183, bar_volume = PFloat 2000\<rparr>]"

text \<open>
  The primary source answers every request with status 200 and a rate-limit note; the
  secondary source has two rows, oldest first, as its history table lists them.
\<close>

definition limited_world :: world where
  "limited_world =
     \<lparr>clock = 1000, today = ''2024-01-04'',
      http = (\<lambda>url ps. Response 200 (Some (PDict [(''Note'', PStr ''rate limit'')]))),
      yf_history = (\<lambda>tk. Some two_bars), yf_info = (\<lambda>tk. Some []),
      write_result = (\<lambda>path. Written),
      parse_float = (\<lambda>s. None), parse_int = (\<lambda>s. None)\<rparr>"

text \<open>The same, with a cache directory that cannot be written.\<close>

definition readonly_world :: world where
  "readonly_world = limited_world\<lparr>write_result := (\<lambda>path. OpenRefused)\<rparr>"

text \<open>Both sources are down.\<close>

definition offline_world :: world where
  "offline_world =
     \<lparr>clock = 1000, today = ''2024-01-04'',
      http = (\<lambda>url ps. ConnectionFailed),
      yf_history = (\<lambda>tk. None), yf_info = (\<lambda>tk. None),
      write_result = (\<lambda>path. Written),
      parse_float = (\<lambda>s. None), parse_int = (\<lambda>s. None)\<rparr>"

definition no_files :: filesystem where
  "no_files = (\<lambda>path. None)"

definition aapl_path :: string where
  "aapl_path = ''./data/cache/aapl_data.json''"

definition fresh_files :: filesystem where
  "fresh_files = no_files(aapl_path \<mapsto> \<lparr>mtime = 900, content = Json (PList [PInt 7])\<rparr>)"

definition corrupt_files :: filesystem where
  "corrupt_files = no_files(aapl_path \<mapsto> \<lparr>mtime = 900, content = Unreadable\<rparr>)"

definition stale_files :: filesystem where
  "stale_files = no_files(aapl_path \<mapsto> \<lparr>mtime = -5000, content = Json (PList [PInt 7])\<rparr>)"

text \<open>What the secondary source of \<open>limited_world\<close> yields for AAPL.\<close>

definition yahoo_aapl :: stock_record where
  "yahoo_aapl = \<lparr>ticker = ''AAPL'', source = ''yahoo'', last_updated = PStr ''2024-01-04'',
      prices = map bar_point two_bars, company_info = Some (yahoo_company_info ''AAPL'' [])\<rparr>"

section \<open>Properties named by the specification\<close>

text \<open>
  Two characters are case variants when they are equal or are the upper-case and the
  lower-case form of one ASCII letter; two tickers differ only in letter case when they
  are case variants position by position.
\<close>

definition case_variants :: "char \<Rightarrow> char \<Rightarrow> bool" where
  "case_variants a b =
     (a = b \<or> (is_upper a \<and> (of_char b :: nat) = of_char a + 32)
            \<or> (is_upper b \<and> (of_char a :: nat) = of_char b + 32))"

definition differ_only_in_case :: "string \<Rightarrow> string \<Rightarrow> bool" where
  "differ_only_in_case s t = list_all2 case_variants s t"

text \<open>
  A file name is safe to put under a directory when it is one path component: not
  empty, not \<^verbatim>\<open>.\<close> or \<^verbatim>\<open>..\<close>, and free of the separator and of the NUL character.
\<close>

definition safe_file_name :: "string \<Rightarrow> bool" where
  "safe_file_name n =
     (n \<noteq> [] \<and> n \<noteq> ''.'' \<and> n \<noteq> ''..'' \<and> CHR ''/'' \<notin> set n \<and> CHR 0x00 \<notin> set n)"

text \<open>Text of ASCII characters only, on which \<open>lower\<close> is \<^verbatim>\<open>str.lower()\<close>.\<close>

definition is_ascii :: "string \<Rightarrow> bool" where
  "is_ascii s = list_all (\<lambda>c. (of_char c :: nat) < 128) s"

text \<open>Most recent first: the dates never increase along the list.\<close>

definition recent_first :: "price_point list \<Rightarrow> bool" where
  "recent_first ps = sorted_wrt (\<lambda>a b. pp_date b \<le> pp_date a) ps"






section \<open>Basic facts\<close>

lemma cache_lookup_unfold:
  "cache_lookup w p fs cf =
     (if path_exists fs cf then
        (case getmtime fs cf of
           Inl x \<Rightarrow> (Inl x, [Exists cf, GetMTime cf])
         | Inr m \<Rightarrow>
             if clock w - m < of_int (cache_duration p) then
               (case read_json fs cf of
                  Inr v \<Rightarrow> (Inr (Some v), [Exists cf, GetMTime cf, OpenRead cf])
                | Inl _ \<Rightarrow> (Inr None, [Exists cf, GetMTime cf, OpenRead cf]))
             else (Inr None, [Exists cf, GetMTime cf]))
      else (Inr None, [Exists cf]))"
  by (simp add: cache_lookup_def cache_lookup_shared_def)

lemma get_stock_data_unfold:
  "get_stock_data w p fs tk =
     (let cf = cache_file (cache_dir p) tk in
      case cache_lookup w p fs cf of
        (Inl x, evs) \<Rightarrow> (Inl x, fs, evs)
      | (Inr (Some v), evs) \<Rightarrow> (Inr v, fs, evs)
      | (Inr None, evs) \<Rightarrow>
          (case live_fetch w p fs tk cf of (data, fs', evs') \<Rightarrow> (Inr data, fs', evs @ evs')))"
  by (simp add: get_stock_data_def get_stock_data_shared_def cache_lookup_def)


lemma truthy_stock_json: "truthy (stock_json r)"
  by (simp add: stock_json_def)

lemma truthy_as_optional: "truthy (as_optional d) \<longleftrightarrow> d \<noteq> None"
  by (cases d) (simp_all add: as_optional_def truthy_stock_json)

lemma as_optional_PNone: "as_optional d = PNone \<longleftrightarrow> d = None"
  by (cases d) (simp_all add: as_optional_def stock_json_def)

lemma aapl_cache_file: "cache_file ''./data/cache'' ''AAPL'' = aapl_path"
  by code_simp

text \<open>The inner blocks do raise: the model's exceptions are not empty.\<close>

lemma primary_block_raises:
  "alpha_vantage_try offline_world ''KEY'' ''AAPL''
     = (Inl RequestException, [HttpGet av_url (time_series_params ''KEY'' ''AAPL'')])"
  by (simp add: alpha_vantage_try_def offline_world_def)

lemma secondary_block_raises:
  "yahoo_try offline_world ''AAPL'' = (Inl YFinanceError, [YfHistory ''AAPL''])"
  by (simp add: yahoo_try_def offline_world_def)

lemma corrupt_read_raises: "read_json corrupt_files aapl_path = Inl JSONDecodeError"
  by (simp add: read_json_def corrupt_files_def)

lemma readonly_write_raises: "write_json readonly_world fs aapl_path v = (Inl OSError, fs)"
  by (simp add: write_json_def readonly_world_def limited_world_def)

lemma getmtime_missing_raises: "getmtime no_files aapl_path = Inl FileNotFoundError"
  by (simp add: getmtime_def no_files_def)

section \<open>The shape of a fetch\<close>

lemma write_cache_events: "snd (write_cache w fs cf v) = [OpenWrite cf]"
  by (simp add: write_cache_def write_json_def split: write_outcome.splits)

lemma write_cache_fs:
  "fst (write_cache w fs cf v) =
     (case write_result w cf of
        Written \<Rightarrow> fs(cf \<mapsto> \<lparr>mtime = clock w, content = Json v\<rparr>)
      | OpenRefused \<Rightarrow> fs
      | DumpFailed \<Rightarrow> fs(cf \<mapsto> \<lparr>mtime = clock w, content = Unreadable\<rparr>))"
  by (simp add: write_cache_def write_json_def split: write_outcome.splits)

lemma write_cache_other: "q \<noteq> cf \<Longrightarrow> fst (write_cache w fs cf v) q = fs q"
  by (cases "write_result w cf") (simp_all add: write_cache_fs)

lemma failed_dump_truncates:
  "write_result w cf = DumpFailed \<Longrightarrow>
     fst (write_cache w fs cf v) cf = Some \<lparr>mtime = clock w, content = Unreadable\<rparr>"
  by (simp add: write_cache_fs)

lemma attach_overview_events:
  "snd (attach_overview w key tk r) = [HttpGet av_url (overview_params key tk)]"
  by (simp add: attach_overview_def Let_def split: http_reply.splits option.splits sum.splits)

lemma attach_overview_eventsD:
  "attach_overview w key tk r = (res, evs) \<Longrightarrow> evs = [HttpGet av_url (overview_params key tk)]"
  using attach_overview_events [of w key tk r] by simp

lemma alpha_vantage_try_eventsD:
  "alpha_vantage_try w key tk = (res, evs) \<Longrightarrow> e \<in> set evs \<Longrightarrow> is_primary_call e"
  by (auto simp: alpha_vantage_try_def Let_def dest!: attach_overview_eventsD
      split: http_reply.splits option.splits sum.splits prod.splits if_splits)

lemma alpha_vantage_record_events:
  "\<forall>e\<in>set (snd (alpha_vantage_record w p tk)). is_primary_call e"
  by (auto simp: alpha_vantage_record_def dest: alpha_vantage_try_eventsD
      split: option.splits sum.splits prod.splits if_splits)

lemma get_alpha_vantage_data_events:
  "snd (get_alpha_vantage_data w p tk) = snd (alpha_vantage_record w p tk)"
  by (simp add: get_alpha_vantage_data_def split: prod.splits)

lemma get_alpha_vantage_data_value:
  "fst (get_alpha_vantage_data w p tk) = as_optional (fst (alpha_vantage_record w p tk))"
  by (simp add: get_alpha_vantage_data_def split: prod.splits)

lemma yahoo_try_events:
  "\<exists>rest. snd (yahoo_try w tk) = YfHistory tk # rest \<and> set rest \<subseteq> {YfInfo tk}"
  by (auto simp: yahoo_try_def split: option.splits)

lemma yahoo_record_events: "snd (yahoo_record w tk) = snd (yahoo_try w tk)"
  by (cases "yahoo_try w tk") (simp add: yahoo_record_def split: sum.splits)

lemma get_yahoo_finance_data_events:
  "snd (get_yahoo_finance_data w tk) = snd (yahoo_try w tk)"
  using yahoo_record_events [of w tk]
  by (cases "yahoo_record w tk") (simp add: get_yahoo_finance_data_def)

lemma get_yahoo_finance_data_value:
  "fst (get_yahoo_finance_data w tk) = as_optional (fst (yahoo_record w tk))"
  by (simp add: get_yahoo_finance_data_def split: prod.splits)

lemma live_fetch_primary:
  assumes "fst (alpha_vantage_record w p tk) = Some r"
  shows "live_fetch w p fs tk cf =
           (stock_json r, fst (write_cache w fs cf (stock_json r)),
            snd (alpha_vantage_record w p tk) @ [OpenWrite cf])"
proof -
  obtain evs where a: "alpha_vantage_record w p tk = (Some r, evs)"
    using assms by (cases "alpha_vantage_record w p tk") simp
  obtain fs' evs' where wr: "write_cache w fs cf (stock_json r) = (fs', evs')"
    by (cases "write_cache w fs cf (stock_json r)")
  with write_cache_events [of w fs cf "stock_json r"] have "evs' = [OpenWrite cf]" by simp
  with a wr show ?thesis
    by (simp add: live_fetch_def get_alpha_vantage_data_def as_optional_def truthy_stock_json)
qed

lemma live_fetch_secondary:
  assumes "fst (alpha_vantage_record w p tk) = None" and "fst (yahoo_record w tk) = Some r"
  shows "live_fetch w p fs tk cf =
           (stock_json r, fst (write_cache w fs cf (stock_json r)),
            snd (alpha_vantage_record w p tk) @ snd (yahoo_record w tk) @ [OpenWrite cf])"
proof -
  obtain evs where a: "alpha_vantage_record w p tk = (None, evs)"
    using assms(1) by (cases "alpha_vantage_record w p tk") simp
  obtain evs2 where y: "yahoo_record w tk = (Some r, evs2)"
    using assms(2) by (cases "yahoo_record w tk") simp
  obtain fs' evs' where wr: "write_cache w fs cf (stock_json r) = (fs', evs')"
    by (cases "write_cache w fs cf (stock_json r)")
  with write_cache_events [of w fs cf "stock_json r"] have "evs' = [OpenWrite cf]" by simp
  with a y wr show ?thesis
    by (simp add: live_fetch_def get_alpha_vantage_data_def get_yahoo_finance_data_def
        as_optional_def truthy_stock_json)
qed

lemma live_fetch_failed:
  assumes "fst (alpha_vantage_record w p tk) = None" and "fst (yahoo_record w tk) = None"
  shows "live_fetch w p fs tk cf =
           (PNone, fs, snd (alpha_vantage_record w p tk) @ snd (yahoo_record w tk))"
proof -
  obtain evs where a: "alpha_vantage_record w p tk = (None, evs)"
    using assms(1) by (cases "alpha_vantage_record w p tk") simp
  obtain evs2 where y: "yahoo_record w tk = (None, evs2)"
    using assms(2) by (cases "yahoo_record w tk") simp
  from a y show ?thesis
    by (simp add: live_fetch_def get_alpha_vantage_data_def get_yahoo_finance_data_def
        as_optional_def)
qed

lemma get_stock_data_miss:
  assumes "fst (cache_lookup w p fs (cache_file (cache_dir p) tk)) = Inr None"
  shows "get_stock_data w p fs tk =
           (Inr (fst (live_fetch w p fs tk (cache_file (cache_dir p) tk))),
            fst (snd (live_fetch w p fs tk (cache_file (cache_dir p) tk))),
            snd (cache_lookup w p fs (cache_file (cache_dir p) tk))
              @ snd (snd (live_fetch w p fs tk (cache_file (cache_dir p) tk))))"
proof -
  obtain evs where c: "cache_lookup w p fs (cache_file (cache_dir p) tk) = (Inr None, evs)"
    using assms by (cases "cache_lookup w p fs (cache_file (cache_dir p) tk)") simp
  then show ?thesis
    by (simp add: get_stock_data_unfold Let_def split: prod.splits)
qed

lemma cache_lookup_events:
  "\<forall>e\<in>set (snd (cache_lookup w p fs cf)). event_path e = Some cf \<and> \<not> is_network_call e"
  by (auto simp: cache_lookup_unfold is_network_call_def split: sum.splits)

lemma cache_lookup_absent_or_stale:
  assumes "fs cf = None \<or> (\<exists>f. fs cf = Some f \<and> \<not> clock w - mtime f < of_int (cache_duration p))"
  shows "fst (cache_lookup w p fs cf) = Inr None"
  using assms by (auto simp: cache_lookup_unfold path_exists_def getmtime_def)

subsection \<open>The scenarios, evaluated\<close>

lemma limited_primary:
  "alpha_vantage_record limited_world keyed_provider ''AAPL''
     = (None, [HttpGet av_url (time_series_params ''KEY'' ''AAPL'')])"
  by (simp add: alpha_vantage_record_def keyed_provider_def alpha_vantage_try_def
      limited_world_def alpha_processed_def error_reported_def py_in_def and_then_def
      py_get_def dget_def)

lemma limited_secondary:
  "yahoo_record limited_world ''AAPL'' = (Some yahoo_aapl, [YfHistory ''AAPL'', YfInfo ''AAPL''])"
  by (simp add: yahoo_record_def yahoo_try_def limited_world_def two_bars_def yahoo_aapl_def)

lemma corrupt_lookup:
  "cache_lookup limited_world keyed_provider corrupt_files aapl_path
     = (Inr None, [Exists aapl_path, GetMTime aapl_path, OpenRead aapl_path])"
  by (simp add: cache_lookup_unfold path_exists_def getmtime_def read_json_def corrupt_files_def
      limited_world_def keyed_provider_def)

lemma offline_primary:
  "alpha_vantage_record offline_world keyed_provider ''AAPL''
     = (None, [HttpGet av_url (time_series_params ''KEY'' ''AAPL'')])"
  by (simp add: alpha_vantage_record_def keyed_provider_def primary_block_raises)

lemma offline_secondary: "yahoo_record offline_world ''AAPL'' = (None, [YfHistory ''AAPL''])"
  by (simp add: yahoo_record_def secondary_block_raises)

lemma stale_lookup:
  "cache_lookup offline_world keyed_provider stale_files aapl_path
     = (Inr None, [Exists aapl_path, GetMTime aapl_path])"
  by (simp add: cache_lookup_unfold path_exists_def getmtime_def stale_files_def
      offline_world_def keyed_provider_def)

lemma keyless_primary: "alpha_vantage_record w keyless_provider tk = (None, [])"
  by (simp add: alpha_vantage_record_def keyless_provider_def)

lemma readonly_secondary:
  "yahoo_record readonly_world ''AAPL'' = (Some yahoo_aapl, [YfHistory ''AAPL'', YfInfo ''AAPL''])"
  by (simp add: yahoo_record_def yahoo_try_def readonly_world_def limited_world_def
      two_bars_def yahoo_aapl_def)

lemma no_files_lookup: "cache_lookup w p no_files cf = (Inr None, [Exists cf])"
  by (simp add: cache_lookup_unfold path_exists_def no_files_def)

subsection \<open>The order and the kinds of the calls\<close>

lemma primary_not_secondary: "is_primary_call e \<Longrightarrow> \<not> is_secondary_call e"
  by (cases e) simp_all

lemma yahoo_events_secondary:
  "\<forall>e\<in>set (snd (yahoo_record w tk)). is_secondary_call e"
proof -
  obtain rest where "snd (yahoo_try w tk) = YfHistory tk # rest" "set rest \<subseteq> {YfInfo tk}"
    using yahoo_try_events [of w tk] by blast
  then show ?thesis by (auto simp: yahoo_record_events)
qed

lemma yahoo_events_nonempty: "YfHistory tk \<in> set (snd (yahoo_record w tk))"
  using yahoo_try_events [of w tk] by (auto simp: yahoo_record_events)

lemma live_fetch_shape:
  "\<exists>rest. snd (snd (live_fetch w p fs tk cf)) = snd (get_alpha_vantage_data w p tk) @ rest
     \<and> (\<forall>e\<in>set rest. \<not> is_primary_call e)
     \<and> ((\<exists>e\<in>set rest. is_secondary_call e) \<longleftrightarrow> fst (get_alpha_vantage_data w p tk) = PNone)"
proof (cases "fst (alpha_vantage_record w p tk)")
  case (Some r)
  then show ?thesis
    by (simp add: live_fetch_primary get_alpha_vantage_data_events get_alpha_vantage_data_value
        as_optional_PNone)
next
  case None
  note prim = this
  show ?thesis
  proof (cases "fst (yahoo_record w tk)")
    case None
    with prim yahoo_events_secondary [of w tk] yahoo_events_nonempty [of tk w] show ?thesis
      by (auto simp: live_fetch_failed get_alpha_vantage_data_events
          get_alpha_vantage_data_value as_optional_PNone dest: primary_not_secondary)
  next
    case (Some r)
    with prim yahoo_events_secondary [of w tk] yahoo_events_nonempty [of tk w] show ?thesis
      by (auto simp: live_fetch_secondary get_alpha_vantage_data_events
          get_alpha_vantage_data_value as_optional_PNone dest: primary_not_secondary)
  qed
qed

lemma live_fetch_cases:
  "(\<exists>r. fst (live_fetch w p fs tk cf) = stock_json r
        \<and> (fst (alpha_vantage_record w p tk) = Some r
           \<or> fst (alpha_vantage_record w p tk) = None \<and> fst (yahoo_record w tk) = Some r)
        \<and> fst (snd (live_fetch w p fs tk cf)) = fst (write_cache w fs cf (stock_json r))
        \<and> OpenWrite cf \<in> set (snd (snd (live_fetch w p fs tk cf))))
   \<or> (fst (live_fetch w p fs tk cf) = PNone
        \<and> fst (alpha_vantage_record w p tk) = None \<and> fst (yahoo_record w tk) = None
        \<and> fst (snd (live_fetch w p fs tk cf)) = fs
        \<and> snd (snd (live_fetch w p fs tk cf))
            = snd (alpha_vantage_record w p tk) @ snd (yahoo_record w tk))"
proof (cases "fst (alpha_vantage_record w p tk)")
  case (Some r)
  then show ?thesis by (simp add: live_fetch_primary)
next
  case None
  then show ?thesis
    by (cases "fst (yahoo_record w tk)") (simp_all add: live_fetch_secondary live_fetch_failed)
qed

lemma no_write_in_sources:
  "OpenWrite q \<notin> set (snd (alpha_vantage_record w p tk) @ snd (yahoo_record w tk))"
  using alpha_vantage_record_events [of w p tk] yahoo_events_secondary [of w tk] by auto

lemma no_write_in_lookup: "OpenWrite q \<notin> set (snd (cache_lookup w p fs cf))"
  by (auto simp: cache_lookup_unfold split: sum.splits)

lemma get_stock_data_not_miss:
  assumes "fst (cache_lookup w p fs (cache_file (cache_dir p) tk)) \<noteq> Inr None"
  shows "fst (snd (get_stock_data w p fs tk)) = fs
       \<and> snd (snd (get_stock_data w p fs tk)) = snd (cache_lookup w p fs (cache_file (cache_dir p) tk))"
proof -
  obtain res evs where c: "cache_lookup w p fs (cache_file (cache_dir p) tk) = (res, evs)"
    by (cases "cache_lookup w p fs (cache_file (cache_dir p) tk)")
  with assms have "res \<noteq> Inr None" by simp
  with c show ?thesis
    by (cases res) (auto simp: get_stock_data_unfold Let_def split: option.splits)
qed

lemma live_fetch_write_path:
  "OpenWrite q \<in> set (snd (snd (live_fetch w p fs tk cf))) \<Longrightarrow> q = cf"
  using live_fetch_cases [of w p fs tk cf] no_write_in_sources [of q w p tk]
    alpha_vantage_record_events [of w p tk] yahoo_events_secondary [of w tk]
  by (cases "fst (alpha_vantage_record w p tk)"; cases "fst (yahoo_record w tk)")
     (auto simp: live_fetch_primary live_fetch_secondary live_fetch_failed)

lemma alpha_vantage_try_first:
  "\<exists>rest. snd (alpha_vantage_try w key tk) = HttpGet av_url (time_series_params key tk) # rest"
  by (auto simp: alpha_vantage_try_def Let_def
      split: http_reply.splits option.splits sum.splits prod.splits)

lemma keyed_primary_first:
  assumes "alpha_vantage_key p = Some key" and "key \<noteq> []"
  shows "\<exists>rest. snd (get_alpha_vantage_data w p tk)
           = HttpGet av_url (time_series_params key tk) # rest"
proof -
  obtain rest where r: "snd (alpha_vantage_try w key tk)
      = HttpGet av_url (time_series_params key tk) # rest"
    using alpha_vantage_try_first [of w key tk] by blast
  obtain res evs where t: "alpha_vantage_try w key tk = (res, evs)"
    by (cases "alpha_vantage_try w key tk")
  with r have "evs = HttpGet av_url (time_series_params key tk) # rest" by simp
  with t assms show ?thesis
    by (cases res) (simp_all add: get_alpha_vantage_data_events alpha_vantage_record_def)
qed

subsection \<open>A rejected response of the primary source\<close>

lemma error_reported_dict:
  "error_reported (PDict body) =
     Inr (''Error Message'' \<in> fst ` set body \<or> ''Information'' \<in> fst ` set body
          \<or> ''Note'' \<in> fst ` set body)"
  by (simp add: error_reported_def py_in_def and_then_def)

lemma alpha_processed_rejected:
  assumes "''Error Message'' \<in> fst ` set body \<or> ''Information'' \<in> fst ` set body
     \<or> ''Note'' \<in> fst ` set body \<or> \<not> truthy (dget body ''Time Series (Daily)'' (PDict []))"
  shows "alpha_processed w tk (PDict body) = Inr None"
  using assms by (auto simp: alpha_processed_def error_reported_dict and_then_def py_get_def)

lemma live_fetch_after_failed_primary:
  assumes "fst (alpha_vantage_record w p tk) = None"
  shows "fst (live_fetch w p fs tk cf) = fst (get_yahoo_finance_data w tk)
       \<and> (\<exists>rest. snd (snd (live_fetch w p fs tk cf))
             = snd (alpha_vantage_record w p tk) @ YfHistory tk # rest)"
proof -
  obtain rest where y: "snd (yahoo_record w tk) = YfHistory tk # rest"
    using yahoo_try_events [of w tk] by (auto simp: yahoo_record_events)
  show ?thesis
  proof (cases "fst (yahoo_record w tk)")
    case None
    with assms y show ?thesis
      by (simp add: live_fetch_failed get_yahoo_finance_data_value as_optional_def)
  next
    case (Some r)
    with assms y show ?thesis
      by (simp add: live_fetch_secondary get_yahoo_finance_data_value as_optional_def)
  qed
qed

lemma live_fetch_truthy_written:
  assumes "truthy (fst (live_fetch w p fs tk cf))"
  shows "fst (snd (live_fetch w p fs tk cf))
           = fst (write_cache w fs cf (fst (live_fetch w p fs tk cf)))"
  using live_fetch_cases [of w p fs tk cf] assms by auto

subsection \<open>Lower-casing and the files a fetch touches\<close>

lemma lower_char_variants: "case_variants a b \<Longrightarrow> lower_char a = lower_char b"
proof -
  have up: "lower_char x = y \<and> lower_char y = y"
    if "is_upper x" and "(of_char y :: nat) = of_char x + 32" for x y
  proof -
    from that have "\<not> is_upper y" by (simp add: is_upper_def)
    moreover from that(2) have "char_of ((of_char x :: nat) + 32) = y"
      by (metis char_of_char)
    ultimately show ?thesis using that(1) by (simp add: lower_char_def)
  qed
  assume "case_variants a b"
  then consider "a = b" | "is_upper a \<and> (of_char b :: nat) = of_char a + 32"
    | "is_upper b \<and> (of_char a :: nat) = of_char b + 32"
    by (auto simp: case_variants_def)
  then show ?thesis
  proof cases
    case 1
    then show ?thesis by simp
  next
    case 2
    with up [of a b] show ?thesis by simp
  next
    case 3
    with up [of b a] show ?thesis by simp
  qed
qed

lemma lower_variants: "differ_only_in_case s t \<Longrightarrow> lower s = lower t"
  unfolding differ_only_in_case_def lower_def
  by (induction s t rule: list_all2_induct) (simp_all add: lower_char_variants)

lemma lower_char_keeps:
  assumes "\<not> is_upper c" and "\<not> (97 \<le> (of_char c :: nat) \<and> (of_char c :: nat) \<le> 122)"
  shows "lower_char x = c \<longleftrightarrow> x = c"
proof (cases "is_upper x")
  case False
  then show ?thesis by (simp add: lower_char_def)
next
  case True
  then have "(of_char (char_of ((of_char x :: nat) + 32) :: char) :: nat) = of_char x + 32"
    by (simp add: is_upper_def)
  with True assms(2) have "char_of ((of_char x :: nat) + 32) \<noteq> c"
    by (auto simp: is_upper_def)
  moreover from True assms(1) have "x \<noteq> c" by auto
  ultimately show ?thesis using True by (simp add: lower_char_def)
qed

lemma lower_keeps_member:
  assumes "\<not> is_upper c" and "\<not> (97 \<le> (of_char c :: nat) \<and> (of_char c :: nat) \<le> 122)"
  shows "c \<in> set (lower s) \<longleftrightarrow> c \<in> set s"
proof -
  have "c \<in> lower_char ` set s \<longleftrightarrow> (\<exists>x\<in>set s. lower_char x = c)" by auto
  also have "\<dots> \<longleftrightarrow> c \<in> set s" by (simp add: lower_char_keeps [OF assms])
  finally show ?thesis by (simp add: lower_def)
qed

lemma safe_cache_name:
  "safe_file_name (cache_name s) \<longleftrightarrow> CHR ''/'' \<notin> set s \<and> CHR 0x00 \<notin> set s"
proof -
  have a: "CHR ''/'' \<in> set (lower s) \<longleftrightarrow> CHR ''/'' \<in> set s"
    by (rule lower_keeps_member) (simp_all add: is_upper_def)
  have b: "CHR 0x00 \<in> set (lower s) \<longleftrightarrow> CHR 0x00 \<in> set s"
    by (rule lower_keeps_member) (simp_all add: is_upper_def)
  have c: "lower s @ ''_data.json'' \<noteq> ''.''" "lower s @ ''_data.json'' \<noteq> ''..''"
    by (auto simp: append_eq_Cons_conv)
  from a b c show ?thesis by (simp add: safe_file_name_def cache_name_def)
qed

lemma get_stock_data_paths:
  "\<forall>e\<in>set (snd (snd (get_stock_data w p fs tk))).
      \<forall>q. event_path e = Some q \<longrightarrow> q = cache_file (cache_dir p) tk"
proof (cases "fst (cache_lookup w p fs (cache_file (cache_dir p) tk)) = Inr None")
  case False
  from get_stock_data_not_miss [OF False] cache_lookup_events [of w p fs "cache_file (cache_dir p) tk"]
  show ?thesis by simp
next
  case True
  let ?cf = "cache_file (cache_dir p) tk"
  have "event_path e = Some q \<Longrightarrow> q = ?cf"
    if "e \<in> set (snd (snd (live_fetch w p fs tk ?cf)))" for e q
  proof -
    assume q: "event_path e = Some q"
    have src: "e' \<in> set (snd (alpha_vantage_record w p tk) @ snd (yahoo_record w tk))
        \<Longrightarrow> event_path e' = None" for e'
      using alpha_vantage_record_events [of w p tk] yahoo_events_secondary [of w tk]
      by (cases e') auto
    from that live_fetch_cases [of w p fs tk ?cf] src [of e] q show "q = ?cf"
      by (cases "fst (alpha_vantage_record w p tk)"; cases "fst (yahoo_record w tk)")
         (auto simp: live_fetch_primary live_fetch_secondary live_fetch_failed)
  qed
  with get_stock_data_miss [OF True] cache_lookup_events [of w p fs ?cf]
  show ?thesis by auto
qed

lemma get_stock_data_other_files:
  assumes "q \<noteq> cache_file (cache_dir p) tk"
  shows "fst (snd (get_stock_data w p fs tk)) q = fs q"
proof (cases "fst (cache_lookup w p fs (cache_file (cache_dir p) tk)) = Inr None")
  case False
  from get_stock_data_not_miss [OF False] show ?thesis by simp
next
  case True
  from get_stock_data_miss [OF True] live_fetch_cases [of w p fs tk "cache_file (cache_dir p) tk"] assms
  show ?thesis by (auto simp: write_cache_other)
qed

subsection \<open>Sorting and defaults of the normalisation\<close>

lemma sort_recent_first_sorted: "recent_first (sort_recent_first ps)"
proof -
  have "sorted (map pp_date (sort_key pp_date (rev ps)))" by (rule sorted_sort_key)
  then have "sorted_wrt (\<lambda>a b. pp_date a \<le> pp_date b) (sort_key pp_date (rev ps))"
    by (simp add: sorted_map)
  then show ?thesis
    by (simp add: recent_first_def sort_recent_first_def sorted_wrt_rev)
qed

lemma process_time_series_recent_first:
  "process_alpha_vantage_time_series w ts = Inr ps \<Longrightarrow> recent_first ps"
  by (auto simp: process_alpha_vantage_time_series_def and_then_def sort_recent_first_sorted
      split: pyval.splits sum.splits)

lemma alpha_processed_recent_first:
  "alpha_processed w tk data = Inr (Some r) \<Longrightarrow> recent_first (prices r)"
  by (auto simp: alpha_processed_def and_then_def dest: process_time_series_recent_first
      split: sum.splits if_splits)

lemma attach_overview_prices:
  "attach_overview w key tk r = (Inr (Some r'), evs) \<Longrightarrow> prices r' = prices r"
  by (auto simp: attach_overview_def Let_def
      split: http_reply.splits option.splits sum.splits if_splits)

lemma primary_prices_recent_first:
  assumes "fst (alpha_vantage_record w p tk) = Some r"
  shows "recent_first (prices r)"
proof -
  obtain key where key: "alpha_vantage_key p = Some key" "key \<noteq> []"
    using assms by (auto simp: alpha_vantage_record_def split: option.splits if_splits)
  obtain res evs where t: "alpha_vantage_try w key tk = (res, evs)"
    by (cases "alpha_vantage_try w key tk")
  with key assms have res: "res = Inr (Some r)"
    by (cases res) (simp_all add: alpha_vantage_record_def)
  from t [unfolded res] show ?thesis
    by (auto simp: alpha_vantage_try_def Let_def
        dest!: alpha_processed_recent_first attach_overview_prices
        split: http_reply.splits option.splits sum.splits if_splits prod.splits)
qed

lemma secondary_prices_in_table_order:
  assumes "fst (yahoo_record w tk) = Some r"
  shows "\<exists>rows. yf_history w tk = Some rows \<and> map pp_date (prices r) = map bar_date rows"
  using assms
  by (cases "yahoo_try w tk")
     (auto simp: yahoo_record_def yahoo_try_def bar_point_def comp_def
      split: option.splits sum.splits if_splits)




















subsection \<open>Which exceptions leave the fetch\<close>

lemma only_getmtime_raises:
  assumes "fst (get_stock_data_shared w p fs fs_later tk) = Inl x"
  shows "path_exists fs (cache_file (cache_dir p) tk)
       \<and> getmtime fs_later (cache_file (cache_dir p) tk) = Inl x"
  using assms
  by (auto simp: get_stock_data_shared_def Let_def cache_lookup_shared_def
      split: if_splits sum.splits option.splits prod.splits)

lemma steady_fetch_never_raises:
  "\<exists>v fs' evs. get_stock_data w p fs tk = (Inr v, fs', evs)"
  by (auto simp: get_stock_data_unfold Let_def cache_lookup_unfold path_exists_def getmtime_def
      split: option.splits sum.splits prod.splits)

section \<open>An exception that leaves the fetch\<close>

text \<open>
  Claim C5 at a failing input. The cache file of AAPL is there when
  \<^verbatim>\<open>os.path.exists\<close> looks and has been removed by another process when
  \<^verbatim>\<open>os.path.getmtime\<close> runs on line 52, outside every \<^verbatim>\<open>try\<close>: the
  \<^verbatim>\<open>FileNotFoundError\<close> leaves \<open>get_stock_data\<close> and reaches the caller, after two
  calls and before any source is tried.
\<close>

theorem vanished_cache_file_raises:
  "path_exists fresh_files (cache_file (cache_dir keyed_provider) ''AAPL'')
   \<and> get_stock_data_shared limited_world keyed_provider fresh_files no_files ''AAPL''
       = (Inl FileNotFoundError, no_files, [Exists aapl_path, GetMTime aapl_path])"
proof -
  have dir: "cache_dir keyed_provider = ''./data/cache''" by (simp add: keyed_provider_def)
  show ?thesis
    by (simp add: get_stock_data_shared_def cache_lookup_shared_def dir aapl_cache_file
        path_exists_def fresh_files_def getmtime_missing_raises)
qed

section \<open>A fresh cache entry\<close>

text \<open>
  Claim C1, as the code has it. When the cache file of a ticker exists, its age is below
  the cache duration and its content deserialises to a document \<open>v\<close>, the fetch returns
  exactly \<open>v\<close>, whatever \<open>v\<close> is (nothing is validated), leaves the file system as
  it was, and makes three calls, all on the cache file: no request reaches the primary
  or the secondary source.
\<close>

theorem fresh_cache_is_returned:
  assumes "fs (cache_file (cache_dir p) tk) = Some f"
    and "clock w - mtime f < of_int (cache_duration p)"
    and "content f = Json v"
  shows "get_stock_data w p fs tk =
           (Inr v, fs, [Exists (cache_file (cache_dir p) tk), GetMTime (cache_file (cache_dir p) tk),
                        OpenRead (cache_file (cache_dir p) tk)])"
  using assms
  by (simp add: get_stock_data_unfold Let_def cache_lookup_unfold path_exists_def getmtime_def read_json_def)

theorem fresh_cache_is_returned_witness:
  "fresh_files (cache_file (cache_dir keyed_provider) ''AAPL'')
     = Some \<lparr>mtime = 900, content = Json (PList [PInt 7])\<rparr>
   \<and> clock limited_world - 900 < of_int (cache_duration keyed_provider)
   \<and> get_stock_data limited_world keyed_provider fresh_files ''AAPL'' =
       (Inr (PList [PInt 7]), fresh_files,
        [Exists aapl_path, GetMTime aapl_path, OpenRead aapl_path])"
proof -
  have dir: "cache_dir keyed_provider = ''./data/cache''" by (simp add: keyed_provider_def)
  have a: "fresh_files (cache_file (cache_dir keyed_provider) ''AAPL'')
     = Some \<lparr>mtime = 900, content = Json (PList [PInt 7])\<rparr>"
    by (simp add: dir aapl_cache_file fresh_files_def)
  have b: "clock limited_world - mtime \<lparr>mtime = 900, content = Json (PList [PInt 7])\<rparr>
             < of_int (cache_duration keyed_provider)"
    by (simp add: limited_world_def keyed_provider_def)
  have c: "content \<lparr>mtime = 900, content = Json (PList [PInt 7])\<rparr> = Json (PList [PInt 7])"
    by simp
  from a b c
    fresh_cache_is_returned [of fresh_files keyed_provider "''AAPL''"
      "\<lparr>mtime = 900, content = Json (PList [PInt 7])\<rparr>" limited_world "PList [PInt 7]"]
  show ?thesis by (simp add: dir aapl_cache_file)
qed

text \<open>
  Without the condition on the content the claim fails: a fresh cache file that cannot
  be deserialised falls through to the live fetch (lines 55 to 59), which calls both
  sources.
\<close>

theorem fresh_corrupt_cache_counterexample:
  "corrupt_files (cache_file (cache_dir keyed_provider) ''AAPL'')
     = Some \<lparr>mtime = 900, content = Unreadable\<rparr>
   \<and> clock limited_world - 900 < of_int (cache_duration keyed_provider)
   \<and> snd (snd (get_stock_data limited_world keyed_provider corrupt_files ''AAPL''))
     = [Exists aapl_path, GetMTime aapl_path, OpenRead aapl_path,
        HttpGet av_url (time_series_params ''KEY'' ''AAPL''),
        YfHistory ''AAPL'', YfInfo ''AAPL'', OpenWrite aapl_path]"
proof -
  have dir: "cache_dir keyed_provider = ''./data/cache''" by (simp add: keyed_provider_def)
  have "fst (cache_lookup limited_world keyed_provider corrupt_files
          (cache_file (cache_dir keyed_provider) ''AAPL'')) = Inr None"
    by (simp add: dir aapl_cache_file corrupt_lookup)
  from get_stock_data_miss [OF this] show ?thesis
    by (simp add: dir aapl_cache_file corrupt_lookup
        live_fetch_secondary [where r = yahoo_aapl] limited_primary limited_secondary)
      (simp add: corrupt_files_def keyed_provider_def limited_world_def)
qed

section \<open>Primary before secondary\<close>

text \<open>
  Claim C2. When the cache file of a ticker is absent or stale, the calls of the fetch
  are the cache checks, then everything \<open>get_alpha_vantage_data\<close> does, then the
  rest; no request to the primary source is in the rest, no call of the secondary source
  is before it, and the rest holds a call of the secondary source exactly when the
  primary attempt returned \<open>PNone\<close>. With a key configured the primary attempt is a
  request: the first call after the cache checks is the time-series request for the
  ticker.
\<close>

theorem primary_before_secondary:
  assumes "fs (cache_file (cache_dir p) tk) = None
     \<or> (\<exists>f. fs (cache_file (cache_dir p) tk) = Some f
            \<and> \<not> clock w - mtime f < of_int (cache_duration p))"
  shows "(\<exists>v fs' pre rest.
           get_stock_data w p fs tk = (Inr v, fs', pre @ snd (get_alpha_vantage_data w p tk) @ rest)
         \<and> (\<forall>e\<in>set pre. \<not> is_network_call e)
         \<and> (\<forall>e\<in>set (snd (get_alpha_vantage_data w p tk)). \<not> is_secondary_call e)
         \<and> (\<forall>e\<in>set rest. \<not> is_primary_call e)
         \<and> ((\<exists>e\<in>set rest. is_secondary_call e) \<longleftrightarrow> fst (get_alpha_vantage_data w p tk) = PNone))
       \<and> (\<forall>key. alpha_vantage_key p = Some key \<and> key \<noteq> []
            \<longrightarrow> (\<exists>rest. snd (snd (get_stock_data w p fs tk))
                    = snd (cache_lookup w p fs (cache_file (cache_dir p) tk))
                      @ HttpGet av_url (time_series_params key tk) # rest
                  \<and> (\<forall>e\<in>set (snd (cache_lookup w p fs (cache_file (cache_dir p) tk))).
                        \<not> is_network_call e)))"
proof -
  let ?cf = "cache_file (cache_dir p) tk"
  have miss: "fst (cache_lookup w p fs ?cf) = Inr None"
    using assms by (rule cache_lookup_absent_or_stale)
  obtain rest where rest:
    "snd (snd (live_fetch w p fs tk ?cf)) = snd (get_alpha_vantage_data w p tk) @ rest"
    "\<forall>e\<in>set rest. \<not> is_primary_call e"
    "(\<exists>e\<in>set rest. is_secondary_call e) \<longleftrightarrow> fst (get_alpha_vantage_data w p tk) = PNone"
    using live_fetch_shape [of w p fs tk ?cf] by blast
  have pre: "\<forall>e\<in>set (snd (cache_lookup w p fs ?cf)). \<not> is_network_call e"
    using cache_lookup_events [of w p fs ?cf] by blast
  have prim: "\<forall>e\<in>set (snd (get_alpha_vantage_data w p tk)). \<not> is_secondary_call e"
    using alpha_vantage_record_events [of w p tk]
    by (auto simp: get_alpha_vantage_data_events dest: primary_not_secondary)
  have g: "get_stock_data w p fs tk =
          (Inr (fst (live_fetch w p fs tk ?cf)), fst (snd (live_fetch w p fs tk ?cf)),
           snd (cache_lookup w p fs ?cf) @ snd (get_alpha_vantage_data w p tk) @ rest)"
    using get_stock_data_miss [OF miss] rest(1) by simp
  with pre prim rest(2,3) have order: "\<exists>v fs' pre rest.
           get_stock_data w p fs tk = (Inr v, fs', pre @ snd (get_alpha_vantage_data w p tk) @ rest)
         \<and> (\<forall>e\<in>set pre. \<not> is_network_call e)
         \<and> (\<forall>e\<in>set (snd (get_alpha_vantage_data w p tk)). \<not> is_secondary_call e)
         \<and> (\<forall>e\<in>set rest. \<not> is_primary_call e)
         \<and> ((\<exists>e\<in>set rest. is_secondary_call e) \<longleftrightarrow> fst (get_alpha_vantage_data w p tk) = PNone)"
    by blast
  have request: "\<exists>rest'. snd (snd (get_stock_data w p fs tk))
                    = snd (cache_lookup w p fs ?cf) @ HttpGet av_url (time_series_params key tk) # rest'"
    if "alpha_vantage_key p = Some key \<and> key \<noteq> []" for key
  proof -
    from that obtain r where "snd (get_alpha_vantage_data w p tk)
        = HttpGet av_url (time_series_params key tk) # r"
      using keyed_primary_first [of p key w tk] by blast
    with g show ?thesis by simp
  qed
  from order request pre show ?thesis by blast
qed

theorem primary_before_secondary_witness:
  "(stale_files (cache_file (cache_dir keyed_provider) ''AAPL'') = None
     \<or> (\<exists>f. stale_files (cache_file (cache_dir keyed_provider) ''AAPL'') = Some f
            \<and> \<not> clock limited_world - mtime f < of_int (cache_duration keyed_provider)))
   \<and> (\<exists>v fs' pre rest.
         get_stock_data limited_world keyed_provider stale_files ''AAPL''
           = (Inr v, fs', pre @ snd (get_alpha_vantage_data limited_world keyed_provider ''AAPL'') @ rest)
       \<and> (\<forall>e\<in>set pre. \<not> is_network_call e)
       \<and> (\<forall>e\<in>set (snd (get_alpha_vantage_data limited_world keyed_provider ''AAPL'')).
             \<not> is_secondary_call e)
       \<and> (\<forall>e\<in>set rest. \<not> is_primary_call e)
       \<and> ((\<exists>e\<in>set rest. is_secondary_call e)
            \<longleftrightarrow> fst (get_alpha_vantage_data limited_world keyed_provider ''AAPL'') = PNone))
   \<and> alpha_vantage_key keyed_provider = Some ''KEY'' \<and> ''KEY'' \<noteq> []
   \<and> (\<exists>rest. snd (snd (get_stock_data limited_world keyed_provider stale_files ''AAPL''))
         = [Exists aapl_path, GetMTime aapl_path]
           @ HttpGet av_url (time_series_params ''KEY'' ''AAPL'') # rest)"
proof -
  have dir: "cache_dir keyed_provider = ''./data/cache''" by (simp add: keyed_provider_def)
  have h: "stale_files (cache_file (cache_dir keyed_provider) ''AAPL'') = None
     \<or> (\<exists>f. stale_files (cache_file (cache_dir keyed_provider) ''AAPL'') = Some f
            \<and> \<not> clock limited_world - mtime f < of_int (cache_duration keyed_provider))"
    by (simp add: dir aapl_cache_file stale_files_def limited_world_def keyed_provider_def)
  have k: "alpha_vantage_key keyed_provider = Some ''KEY'' \<and> ''KEY'' \<noteq> []"
    by (simp add: keyed_provider_def)
  have l: "snd (cache_lookup limited_world keyed_provider stale_files
             (cache_file (cache_dir keyed_provider) ''AAPL'')) = [Exists aapl_path, GetMTime aapl_path]"
    by (simp add: dir aapl_cache_file cache_lookup_unfold path_exists_def getmtime_def
        stale_files_def limited_world_def keyed_provider_def)
  note t = primary_before_secondary [of stale_files keyed_provider "''AAPL''" limited_world, OF h]
  from t [THEN conjunct2] k
  have "\<exists>rest. snd (snd (get_stock_data limited_world keyed_provider stale_files ''AAPL''))
         = snd (cache_lookup limited_world keyed_provider stale_files
             (cache_file (cache_dir keyed_provider) ''AAPL''))
           @ HttpGet av_url (time_series_params ''KEY'' ''AAPL'') # rest"
    by blast
  then have r: "\<exists>rest. snd (snd (get_stock_data limited_world keyed_provider stale_files ''AAPL''))
         = [Exists aapl_path, GetMTime aapl_path]
           @ HttpGet av_url (time_series_params ''KEY'' ''AAPL'') # rest"
    unfolding l .
  from k have k1: "alpha_vantage_key keyed_provider = Some ''KEY''" and k2: "''KEY'' \<noteq> []"
    by (rule conjunct1, rule conjunct2)
  from h t [THEN conjunct1] k1 k2 r show ?thesis by - (intro conjI; assumption)
qed

section \<open>Both sources fail\<close>

text \<open>
  Claim C4. When the cache does not serve the request and both sources fail, the fetch
  returns \<open>PNone\<close>, the file system is what it was and no file was opened for writing.
  In any fetch, a file opened for writing or a changed file system means that one of
  the two sources succeeded and that its record is what the fetch returns.
\<close>

theorem failed_fetch_leaves_cache:
  "(fst (cache_lookup w p fs (cache_file (cache_dir p) tk)) = Inr None
      \<and> fst (get_alpha_vantage_data w p tk) = PNone
      \<and> fst (get_yahoo_finance_data w tk) = PNone
    \<longrightarrow> fst (get_stock_data w p fs tk) = Inr PNone
      \<and> fst (snd (get_stock_data w p fs tk)) = fs
      \<and> (\<forall>q. OpenWrite q \<notin> set (snd (snd (get_stock_data w p fs tk)))))
   \<and> ((\<exists>q. OpenWrite q \<in> set (snd (snd (get_stock_data w p fs tk))))
        \<or> fst (snd (get_stock_data w p fs tk)) \<noteq> fs
    \<longrightarrow> (\<exists>r. fst (get_stock_data w p fs tk) = Inr (stock_json r)
          \<and> (fst (alpha_vantage_record w p tk) = Some r
             \<or> fst (alpha_vantage_record w p tk) = None \<and> fst (yahoo_record w tk) = Some r)))"
proof -
  let ?cf = "cache_file (cache_dir p) tk"
  let ?g = "get_stock_data w p fs tk"
  have first: "fst ?g = Inr PNone \<and> fst (snd ?g) = fs \<and> (\<forall>q. OpenWrite q \<notin> set (snd (snd ?g)))"
    if miss: "fst (cache_lookup w p fs ?cf) = Inr None"
      and prim: "fst (get_alpha_vantage_data w p tk) = PNone"
      and sec: "fst (get_yahoo_finance_data w tk) = PNone"
  proof -
    from prim have a: "fst (alpha_vantage_record w p tk) = None"
      by (simp add: get_alpha_vantage_data_value as_optional_PNone)
    from sec have y: "fst (yahoo_record w tk) = None"
      by (simp add: get_yahoo_finance_data_value as_optional_PNone)
    show ?thesis
      using get_stock_data_miss [OF miss] live_fetch_failed [OF a y, of fs ?cf]
        no_write_in_lookup [of _ w p fs ?cf] no_write_in_sources [of _ w p tk]
      by simp
  qed
  have second: "\<exists>r. fst ?g = Inr (stock_json r)
          \<and> (fst (alpha_vantage_record w p tk) = Some r
             \<or> fst (alpha_vantage_record w p tk) = None \<and> fst (yahoo_record w tk) = Some r)"
    if changed: "(\<exists>q. OpenWrite q \<in> set (snd (snd ?g))) \<or> fst (snd ?g) \<noteq> fs"
  proof -
    have miss: "fst (cache_lookup w p fs ?cf) = Inr None"
    proof (rule ccontr)
      assume "fst (cache_lookup w p fs ?cf) \<noteq> Inr None"
      from get_stock_data_not_miss [OF this] changed no_write_in_lookup [of _ w p fs ?cf]
      show False by simp
    qed
    note g = get_stock_data_miss [OF miss]
    from live_fetch_cases [of w p fs tk ?cf] show ?thesis
    proof
      assume "\<exists>r. fst (live_fetch w p fs tk ?cf) = stock_json r
        \<and> (fst (alpha_vantage_record w p tk) = Some r
           \<or> fst (alpha_vantage_record w p tk) = None \<and> fst (yahoo_record w tk) = Some r)
        \<and> fst (snd (live_fetch w p fs tk ?cf)) = fst (write_cache w fs ?cf (stock_json r))
        \<and> OpenWrite ?cf \<in> set (snd (snd (live_fetch w p fs tk ?cf)))"
      with g show ?thesis by auto
    next
      assume "fst (live_fetch w p fs tk ?cf) = PNone
        \<and> fst (alpha_vantage_record w p tk) = None \<and> fst (yahoo_record w tk) = None
        \<and> fst (snd (live_fetch w p fs tk ?cf)) = fs
        \<and> snd (snd (live_fetch w p fs tk ?cf))
            = snd (alpha_vantage_record w p tk) @ snd (yahoo_record w tk)"
      with g changed no_write_in_lookup [of _ w p fs ?cf] no_write_in_sources [of _ w p tk]
      show ?thesis by simp
    qed
  qed
  from first second show ?thesis by blast
qed

theorem failed_fetch_leaves_cache_witness:
  "fst (cache_lookup offline_world keyed_provider stale_files
          (cache_file (cache_dir keyed_provider) ''AAPL'')) = Inr None
   \<and> fst (get_alpha_vantage_data offline_world keyed_provider ''AAPL'') = PNone
   \<and> fst (get_yahoo_finance_data offline_world ''AAPL'') = PNone
   \<and> fst (get_stock_data offline_world keyed_provider stale_files ''AAPL'') = Inr PNone
   \<and> fst (snd (get_stock_data offline_world keyed_provider stale_files ''AAPL'')) = stale_files
   \<and> stale_files aapl_path = Some \<lparr>mtime = -5000, content = Json (PList [PInt 7])\<rparr>"
proof -
  have dir: "cache_dir keyed_provider = ''./data/cache''" by (simp add: keyed_provider_def)
  have a: "fst (cache_lookup offline_world keyed_provider stale_files
          (cache_file (cache_dir keyed_provider) ''AAPL'')) = Inr None"
    by (simp add: dir aapl_cache_file stale_lookup)
  have b: "fst (get_alpha_vantage_data offline_world keyed_provider ''AAPL'') = PNone"
    by (simp add: get_alpha_vantage_data_value offline_primary as_optional_def)
  have c: "fst (get_yahoo_finance_data offline_world ''AAPL'') = PNone"
    by (simp add: get_yahoo_finance_data_value offline_secondary as_optional_def)
  have d: "stale_files aapl_path = Some \<lparr>mtime = -5000, content = Json (PList [PInt 7])\<rparr>"
    by (simp add: stale_files_def)
  from a b c d
    failed_fetch_leaves_cache [of offline_world keyed_provider stale_files "''AAPL''"]
  show ?thesis by blast
qed

section \<open>Failover on a reported error and without a key\<close>

text \<open>
  Claim C6. With a key configured, when the time-series request is answered with status
  200 and a JSON object that has one of the keys \<^verbatim>\<open>Error Message\<close>, \<^verbatim>\<open>Information\<close>,
  \<^verbatim>\<open>Note\<close>, or whose \<^verbatim>\<open>Time Series (Daily)\<close> is missing or empty, the primary attempt
  returns \<open>PNone\<close> after that one request, and a fetch that the cache does not serve
  goes on to the secondary source and returns what it returns.
\<close>

theorem reported_error_fails_over:
  assumes "alpha_vantage_key p = Some key" and "key \<noteq> []"
    and "http w av_url (time_series_params key tk) = Response 200 (Some (PDict body))"
    and "''Error Message'' \<in> fst ` set body \<or> ''Information'' \<in> fst ` set body
       \<or> ''Note'' \<in> fst ` set body \<or> \<not> truthy (dget body ''Time Series (Daily)'' (PDict []))"
  shows "get_alpha_vantage_data w p tk = (PNone, [HttpGet av_url (time_series_params key tk)])
       \<and> (fst (cache_lookup w p fs (cache_file (cache_dir p) tk)) = Inr None
          \<longrightarrow> fst (get_stock_data w p fs tk) = Inr (fst (get_yahoo_finance_data w tk))
            \<and> (\<exists>rest. snd (snd (get_stock_data w p fs tk))
                  = snd (cache_lookup w p fs (cache_file (cache_dir p) tk))
                    @ HttpGet av_url (time_series_params key tk) # YfHistory tk # rest))"
proof -
  have rec: "alpha_vantage_record w p tk = (None, [HttpGet av_url (time_series_params key tk)])"
    using assms(1-3) alpha_processed_rejected [OF assms(4), of w tk]
    by (simp add: alpha_vantage_record_def alpha_vantage_try_def)
  then have prim: "get_alpha_vantage_data w p tk = (PNone, [HttpGet av_url (time_series_params key tk)])"
    by (simp add: get_alpha_vantage_data_def as_optional_def)
  from rec have none: "fst (alpha_vantage_record w p tk) = None" by simp
  show ?thesis
    using prim rec get_stock_data_miss [of w p fs tk]
      live_fetch_after_failed_primary [OF none, of fs "cache_file (cache_dir p) tk"]
    by auto
qed

theorem reported_error_fails_over_witness:
  "alpha_vantage_key keyed_provider = Some ''KEY'' \<and> ''KEY'' \<noteq> []
   \<and> http limited_world av_url (time_series_params ''KEY'' ''AAPL'')
       = Response 200 (Some (PDict [(''Note'', PStr ''rate limit'')]))
   \<and> ''Note'' \<in> fst ` set [(''Note'', PStr ''rate limit'')]
   \<and> get_alpha_vantage_data limited_world keyed_provider ''AAPL''
       = (PNone, [HttpGet av_url (time_series_params ''KEY'' ''AAPL'')])
   \<and> fst (cache_lookup limited_world keyed_provider no_files
             (cache_file (cache_dir keyed_provider) ''AAPL'')) = Inr None
   \<and> fst (get_stock_data limited_world keyed_provider no_files ''AAPL'')
       = Inr (fst (get_yahoo_finance_data limited_world ''AAPL''))
   \<and> fst (get_yahoo_finance_data limited_world ''AAPL'') = stock_json yahoo_aapl"
proof -
  have a: "alpha_vantage_key keyed_provider = Some ''KEY''" by (simp add: keyed_provider_def)
  have b: "''KEY'' \<noteq> []" by simp
  have c: "http limited_world av_url (time_series_params ''KEY'' ''AAPL'')
       = Response 200 (Some (PDict [(''Note'', PStr ''rate limit'')]))"
    by (simp add: limited_world_def)
  have d: "''Error Message'' \<in> fst ` set [(''Note'', PStr ''rate limit'')]
       \<or> ''Information'' \<in> fst ` set [(''Note'', PStr ''rate limit'')]
       \<or> ''Note'' \<in> fst ` set [(''Note'', PStr ''rate limit'')]
       \<or> \<not> truthy (dget [(''Note'', PStr ''rate limit'')] ''Time Series (Daily)'' (PDict []))"
    by simp
  have e: "fst (cache_lookup limited_world keyed_provider no_files
             (cache_file (cache_dir keyed_provider) ''AAPL'')) = Inr None"
    by (simp add: cache_lookup_unfold path_exists_def no_files_def)
  have f: "fst (get_yahoo_finance_data limited_world ''AAPL'') = stock_json yahoo_aapl"
    by (simp add: get_yahoo_finance_data_value limited_secondary as_optional_def)
  from a b c e f reported_error_fails_over [OF a b c d, of no_files]
  show ?thesis by simp
qed

text \<open>
  Claim C7. With no key configured (\<^verbatim>\<open>None\<close> or the empty string) the primary attempt
  returns \<open>PNone\<close> without a request, no fetch makes a request to the primary source,
  and a fetch that the cache does not serve calls the secondary source right after the
  cache checks and returns what it returns.
\<close>

theorem no_key_no_primary_request:
  assumes "alpha_vantage_key p = None \<or> alpha_vantage_key p = Some []"
  shows "get_alpha_vantage_data w p tk = (PNone, [])
       \<and> (\<forall>e\<in>set (snd (snd (get_stock_data w p fs tk))). \<not> is_primary_call e)
       \<and> (fst (cache_lookup w p fs (cache_file (cache_dir p) tk)) = Inr None
          \<longrightarrow> fst (get_stock_data w p fs tk) = Inr (fst (get_yahoo_finance_data w tk))
            \<and> (\<exists>rest. snd (snd (get_stock_data w p fs tk))
                  = snd (cache_lookup w p fs (cache_file (cache_dir p) tk)) @ YfHistory tk # rest))"
proof -
  let ?cf = "cache_file (cache_dir p) tk"
  have rec: "alpha_vantage_record w p tk = (None, [])"
    using assms by (auto simp: alpha_vantage_record_def)
  then have prim: "get_alpha_vantage_data w p tk = (PNone, [])"
    by (simp add: get_alpha_vantage_data_def as_optional_def)
  from rec have none: "fst (alpha_vantage_record w p tk) = None" by simp
  have lookup: "\<forall>e\<in>set (snd (cache_lookup w p fs ?cf)). \<not> is_primary_call e"
    using cache_lookup_events [of w p fs ?cf] by (auto simp: is_network_call_def)
  have live: "\<forall>e\<in>set (snd (snd (live_fetch w p fs tk ?cf))). \<not> is_primary_call e"
    using live_fetch_shape [of w p fs tk ?cf] prim by auto
  have trace: "\<forall>e\<in>set (snd (snd (get_stock_data w p fs tk))). \<not> is_primary_call e"
  proof (cases "fst (cache_lookup w p fs ?cf) = Inr None")
    case True
    from get_stock_data_miss [OF True] lookup live show ?thesis by auto
  next
    case False
    from get_stock_data_not_miss [OF False] lookup show ?thesis by simp
  qed
  show ?thesis
    using prim rec trace get_stock_data_miss [of w p fs tk]
      live_fetch_after_failed_primary [OF none, of fs ?cf]
    by auto
qed

theorem no_key_no_primary_request_witness:
  "(alpha_vantage_key keyless_provider = None \<or> alpha_vantage_key keyless_provider = Some [])
   \<and> get_alpha_vantage_data limited_world keyless_provider ''AAPL'' = (PNone, [])
   \<and> fst (cache_lookup limited_world keyless_provider no_files
             (cache_file (cache_dir keyless_provider) ''AAPL'')) = Inr None
   \<and> fst (get_stock_data limited_world keyless_provider no_files ''AAPL'')
       = Inr (fst (get_yahoo_finance_data limited_world ''AAPL''))
   \<and> fst (get_yahoo_finance_data limited_world ''AAPL'') = stock_json yahoo_aapl"
proof -
  have a: "alpha_vantage_key keyless_provider = None \<or> alpha_vantage_key keyless_provider = Some []"
    by (simp add: keyless_provider_def)
  have e: "fst (cache_lookup limited_world keyless_provider no_files
             (cache_file (cache_dir keyless_provider) ''AAPL'')) = Inr None"
    by (simp add: cache_lookup_unfold path_exists_def no_files_def)
  have f: "fst (get_yahoo_finance_data limited_world ''AAPL'') = stock_json yahoo_aapl"
    by (simp add: get_yahoo_finance_data_value limited_secondary as_optional_def)
  from a e f no_key_no_primary_request [OF a, of limited_world "''AAPL''" no_files]
  show ?thesis by simp
qed

section \<open>A successful fetch is cached\<close>

text \<open>
  Claim C8, as the code has it. When a fetch that the cache does not serve returns a
  record and the write of the cache file completes, the file system afterwards
  differs from the one before only at the cache file of the ticker, which holds the
  returned record: reading it back gives the value returned to the caller.
\<close>

theorem successful_fetch_is_cached:
  assumes "fst (cache_lookup w p fs (cache_file (cache_dir p) tk)) = Inr None"
    and "fst (get_stock_data w p fs tk) = Inr v"
    and "truthy v"
    and "write_result w (cache_file (cache_dir p) tk) = Written"
  shows "fst (snd (get_stock_data w p fs tk))
           = fs(cache_file (cache_dir p) tk \<mapsto> \<lparr>mtime = clock w, content = Json v\<rparr>)
       \<and> read_json (fst (snd (get_stock_data w p fs tk))) (cache_file (cache_dir p) tk) = Inr v"
proof -
  let ?cf = "cache_file (cache_dir p) tk"
  note g = get_stock_data_miss [OF assms(1)]
  from g assms(2) have v: "fst (live_fetch w p fs tk ?cf) = v" by simp
  with assms(3) have "fst (snd (live_fetch w p fs tk ?cf)) = fst (write_cache w fs ?cf v)"
    using live_fetch_truthy_written [of w p fs tk ?cf] by simp
  with assms(4) g show ?thesis
    by (simp add: write_cache_fs read_json_def)
qed

theorem successful_fetch_is_cached_witness:
  "fst (cache_lookup limited_world keyless_provider no_files
          (cache_file (cache_dir keyless_provider) ''AAPL'')) = Inr None
   \<and> fst (get_stock_data limited_world keyless_provider no_files ''AAPL'') = Inr (stock_json yahoo_aapl)
   \<and> truthy (stock_json yahoo_aapl)
   \<and> write_result limited_world (cache_file (cache_dir keyless_provider) ''AAPL'') = Written
   \<and> fst (snd (get_stock_data limited_world keyless_provider no_files ''AAPL''))
       = no_files(cache_file (cache_dir keyless_provider) ''AAPL''
                    \<mapsto> \<lparr>mtime = clock limited_world, content = Json (stock_json yahoo_aapl)\<rparr>)
   \<and> read_json (fst (snd (get_stock_data limited_world keyless_provider no_files ''AAPL'')))
        (cache_file (cache_dir keyless_provider) ''AAPL'') = Inr (stock_json yahoo_aapl)"
proof -
  let ?cf = "cache_file (cache_dir keyless_provider) ''AAPL''"
  have a: "fst (cache_lookup limited_world keyless_provider no_files ?cf) = Inr None"
    by (simp add: no_files_lookup)
  have b: "fst (get_stock_data limited_world keyless_provider no_files ''AAPL'')
             = Inr (stock_json yahoo_aapl)"
    using get_stock_data_miss [OF a]
    by (simp add: live_fetch_secondary [where r = yahoo_aapl] keyless_primary limited_secondary)
  have c: "truthy (stock_json yahoo_aapl)" by (rule truthy_stock_json)
  have d: "write_result limited_world ?cf = Written" by (simp add: limited_world_def)
  from a b c d successful_fetch_is_cached [OF a b c d] show ?thesis by blast
qed

text \<open>
  Without the condition on the write the claim fails: the write is best effort (lines
  71 to 75). With a cache directory that cannot be written, a fetch succeeds through
  the secondary source and no cache file exists afterwards.
\<close>

theorem unwritable_cache_counterexample:
  "fst (get_stock_data readonly_world keyless_provider no_files ''AAPL'') = Inr (stock_json yahoo_aapl)
   \<and> truthy (stock_json yahoo_aapl)
   \<and> fst (snd (get_stock_data readonly_world keyless_provider no_files ''AAPL'')) = no_files
   \<and> read_json (fst (snd (get_stock_data readonly_world keyless_provider no_files ''AAPL'')))
        (cache_file (cache_dir keyless_provider) ''AAPL'') = Inl FileNotFoundError"
proof -
  let ?cf = "cache_file (cache_dir keyless_provider) ''AAPL''"
  have a: "fst (cache_lookup readonly_world keyless_provider no_files ?cf) = Inr None"
    by (simp add: no_files_lookup)
  have w: "write_result readonly_world ?cf = OpenRefused" by (simp add: readonly_world_def)
  have "read_json no_files ?cf = Inl FileNotFoundError" by (simp add: read_json_def no_files_def)
  with w show ?thesis
    using get_stock_data_miss [OF a]
    by (simp add: live_fetch_secondary [where r = yahoo_aapl] keyless_primary readonly_secondary
        write_cache_fs truthy_stock_json)
qed

section \<open>The cache file of a ticker\<close>

text \<open>
  Claim C9, as the code has it, for ASCII tickers. The cache file is \<open>cache_dir\<close>
  joined with the lower-cased ticker followed by \<^verbatim>\<open>_data.json\<close>, and nothing is
  sanitised. Two ASCII tickers that differ only in letter case have the same cache file;
  every file call of a fetch is on that file and no other file changes; the file name is
  one path component exactly when the ticker holds neither a separator nor a NUL
  character.
\<close>

theorem cache_file_ignores_case:
  assumes "is_ascii s" and "is_ascii t" and "differ_only_in_case s t"
  shows "cache_file dir s = cache_file dir t
       \<and> (\<forall>e\<in>set (snd (snd (get_stock_data w p fs s))).
            \<forall>q. event_path e = Some q \<longrightarrow> q = cache_file (cache_dir p) t)
       \<and> (\<forall>q. q \<noteq> cache_file (cache_dir p) t \<longrightarrow> fst (snd (get_stock_data w p fs s)) q = fs q)
       \<and> (safe_file_name (cache_name s) \<longleftrightarrow> CHR ''/'' \<notin> set s \<and> CHR 0x00 \<notin> set s)"
proof -
  from assms(3) have same: "cache_file d s = cache_file d t" for d
    by (simp add: cache_file_def cache_name_def lower_variants)
  show ?thesis
    using same get_stock_data_paths [of w p fs s] get_stock_data_other_files [of _ p s w fs]
      safe_cache_name [of s]
    by simp
qed

theorem cache_file_ignores_case_witness:
  "is_ascii ''Aapl'' \<and> is_ascii ''aaPL''
   \<and> differ_only_in_case ''Aapl'' ''aaPL''
   \<and> cache_file ''./data/cache'' ''Aapl'' = cache_file ''./data/cache'' ''aaPL''
   \<and> cache_file ''./data/cache'' ''aaPL'' = aapl_path
   \<and> safe_file_name (cache_name ''Aapl'')"
proof -
  have a: "differ_only_in_case ''Aapl'' ''aaPL''"
    by (simp add: differ_only_in_case_def case_variants_def is_upper_def)
  have b: "cache_file ''./data/cache'' ''aaPL'' = aapl_path" by code_simp
  have c: "is_ascii ''Aapl''" and d: "is_ascii ''aaPL''" by (simp_all add: is_ascii_def)
  from a b c d
    cache_file_ignores_case [OF c d a, of "''./data/cache''" limited_world keyed_provider no_files]
  show ?thesis by simp
qed

text \<open>
  The name is not made safe for the file system: an ASCII ticker with a separator gives
  a name that is not one path component, and an absolute ticker leaves the cache
  directory.
\<close>

theorem unsanitised_ticker_counterexample:
  "is_ascii ''BRK/B''
   \<and> cache_name ''BRK/B'' = ''brk/b_data.json''
   \<and> \<not> safe_file_name (cache_name ''BRK/B'')
   \<and> cache_file ''./data/cache'' ''BRK/B'' = ''./data/cache/brk/b_data.json''
   \<and> cache_file ''./data/cache'' ''/tmp/x'' = ''/tmp/x_data.json''"
  by code_simp

section \<open>The order of the price points\<close>

text \<open>
  Claim C3 at a failing input. Without a key the fetch is served by the secondary
  source; its table lists 2024-01-02 before 2024-01-03 and the returned record keeps
  that order: oldest first, not most recent first.
\<close>

theorem secondary_prices_oldest_first:
  "fst (get_stock_data limited_world keyless_provider no_files ''AAPL'') = Inr (stock_json yahoo_aapl)
   \<and> map pp_date (prices yahoo_aapl) = [''2024-01-02'', ''2024-01-03'']
   \<and> \<not> recent_first (prices yahoo_aapl)"
proof -
  have a: "fst (cache_lookup limited_world keyless_provider no_files
             (cache_file (cache_dir keyless_provider) ''AAPL'')) = Inr None"
    by (simp add: no_files_lookup)
  have b: "fst (get_stock_data limited_world keyless_provider no_files ''AAPL'')
             = Inr (stock_json yahoo_aapl)"
    using get_stock_data_miss [OF a]
    by (simp add: live_fetch_secondary [where r = yahoo_aapl] keyless_primary limited_secondary)
  have c: "map pp_date (prices yahoo_aapl) = [''2024-01-02'', ''2024-01-03'']"
    by (simp add: yahoo_aapl_def two_bars_def bar_point_def)
  have "\<not> sorted_wrt (\<lambda>a b. b \<le> a) (map pp_date (prices yahoo_aapl))"
    unfolding c by simp
  then have d: "\<not> recent_first (prices yahoo_aapl)"
    by (simp add: recent_first_def sorted_wrt_map)
  from b c d show ?thesis by simp
qed

section \<open>Missing fields of a time-series entry\<close>



end
